theory Spec2Isabelle
  imports Main
begin

section \<open>The 'als-refactor-add-parameters' command executor\<close>

text \<open>
  A shallow embedding of \<^verbatim>\<open>integration/vscode/ada/src/refactoring/alsAddParameterCommand.ts\<close>.
  The executor is an async function; a promise that settles is modelled by its settlement,
  \<open>Inl d\<close> for \<^verbatim>\<open>Promise.reject(d)\<close> and \<open>Inr b\<close> for \<^verbatim>\<open>Promise.resolve(b)\<close>.
  The argument record is shared with the caller and assigned in place, so it is threaded
  through the executor as state, next to a trace of the effects performed.
\<close>

subsection \<open>Data model\<close>

text \<open>
  Modelled from the spec: the enumeration \<^verbatim>\<open>AdaGrammarRule\<close> is declared in
  \<^verbatim>\<open>alsProtocolExtensions\<close>, which is not among the sources. The spec calls its members
  opaque grammar-rule identifiers; only the three members the executor names are modelled.
\<close>

datatype AdaGrammarRule = Defining_Id_Rule | Defining_Id_List_Rule | Param_Spec_Rule

text \<open>
  \<^verbatim>\<open>AddParameterCommandArgs\<close>. The declared field types are \<^verbatim>\<open>string\<close> and \<^verbatim>\<open>boolean\<close>, but the
  executor tests both fields against \<^verbatim>\<open>undefined\<close>, so each field is an option and \<open>None\<close>
  is \<^verbatim>\<open>undefined\<close> (an absent field reads as \<^verbatim>\<open>undefined\<close>).
\<close>

record AddParameterCommandArgs =
  newParameter :: "string option"
  requiresFullSpecification :: "bool option"

text \<open>
  Modelled from the spec: the class \<^verbatim>\<open>AdaSyntaxCheckProvider\<close> is declared in
  \<^verbatim>\<open>alsProtocolExtensions\<close>, which is not among the sources. The spec describes a syntax-check
  capability with the grammar rules and the diagnostic message bound at setup time; an
  instance is the record of its three constructor arguments. The language client is
  external and stays a type parameter.
\<close>

record 'client AdaSyntaxCheckProvider =
  client :: 'client
  rules :: "AdaGrammarRule list"
  diagnostic :: string

text \<open>
  The callback \<^verbatim>\<open>sendCheckSyntaxRequest\<close> taken from a provider is a closure over that
  provider. It is kept as data: the callback names the provider it is bound to.
\<close>

datatype 'client validator = sendCheckSyntaxRequest "'client AdaSyntaxCheckProvider"

text \<open>The fields of \<^verbatim>\<open>InputBoxOptions\<close> that the executor sets.\<close>

record 'client InputBoxOptions =
  title :: string
  prompt :: string
  ignoreFocusOut :: bool
  validateInput :: "'client validator"

subsection \<open>Effects\<close>

text \<open>
  \<^verbatim>\<open>window.showInputBox\<close> settles with the confirmed text, or with \<^verbatim>\<open>undefined\<close> when the
  user dismisses the box: the user is a function from the options shown to
  \<open>string option\<close>. The two effects of the executor are showing an input box and
  assigning \<^verbatim>\<open>args.newParameter\<close>; each is recorded in the trace when it happens.
\<close>

type_synonym 'client window = "'client InputBoxOptions \<Rightarrow> string option"

datatype 'client effect =
  ShowInputBox "'client InputBoxOptions"
| AssignNewParameter string

record 'client state =
  args :: AddParameterCommandArgs
  trace :: "'client effect list"

definition init :: "AddParameterCommandArgs \<Rightarrow> 'client state" where
  "init a = \<lparr>args = a, trace = []\<rparr>"

definition showInputBox ::
  "'client window \<Rightarrow> 'client InputBoxOptions \<Rightarrow> 'client state \<Rightarrow> string option \<times> 'client state" where
  "showInputBox w opts s = (w opts, s\<lparr>trace := trace s @ [ShowInputBox opts]\<rparr>)"

definition assign_newParameter :: "string \<Rightarrow> 'client state \<Rightarrow> 'client state" where
  "assign_newParameter v s =
     s\<lparr>args := (args s)\<lparr>newParameter := Some v\<rparr>, trace := trace s @ [AssignNewParameter v]\<rparr>"

fun shown :: "'client effect list \<Rightarrow> 'client InputBoxOptions list" where
  "shown [] = []"
| "shown (ShowInputBox opts # es) = opts # shown es"
| "shown (AssignNewParameter v # es) = shown es"

fun assigned :: "'client effect list \<Rightarrow> string list" where
  "assigned [] = []"
| "assigned (ShowInputBox opts # es) = assigned es"
| "assigned (AssignNewParameter v # es) = v # assigned es"

subsection \<open>The executor\<close>

text \<open>
  The condition of a JavaScript conditional on a value that may be \<^verbatim>\<open>undefined\<close>. The
  local constants \<^verbatim>\<open>prompt\<close>, \<^verbatim>\<open>rules\<close> and \<^verbatim>\<open>diagnostic\<close> of the executor are the functions
  \<open>prompt_of\<close>, \<open>rules_of\<close> and \<open>diagnostic_of\<close> of the argument record, since the plain
  names are the record fields they are stored in.
\<close>

fun truthy :: "bool option \<Rightarrow> bool" where
  "truthy None = False"
| "truthy (Some b) = b"

definition missing_field :: string where
  \<open>missing_field =
     ''Invalid als-refactor-add-parameters command: missing "requiresFullSpecification" field''\<close>

definition prompt_of :: "AddParameterCommandArgs \<Rightarrow> string" where
  "prompt_of a =
     (if truthy (requiresFullSpecification a)
      then ''Insert a full parameter specification''
      else ''Insert one or more comma-separated parameter names or a full parameter specification'')"

definition rules_of :: "AddParameterCommandArgs \<Rightarrow> AdaGrammarRule list" where
  "rules_of a =
     (if truthy (requiresFullSpecification a)
      then [Param_Spec_Rule]
      else [Defining_Id_Rule, Defining_Id_List_Rule, Param_Spec_Rule])"

definition diagnostic_of :: "AddParameterCommandArgs \<Rightarrow> string" where
  "diagnostic_of a =
     (if truthy (requiresFullSpecification a)
      then ''This is not a syntactically valid full parameter specification''
      else ''This is not a syntactically valid parameter name or full parameter specification'')"

definition adaSyntaxCheckProvider ::
  "'client \<Rightarrow> AddParameterCommandArgs \<Rightarrow> 'client AdaSyntaxCheckProvider" where
  "adaSyntaxCheckProvider c a = \<lparr>client = c, rules = rules_of a, diagnostic = diagnostic_of a\<rparr>"

definition inputBoxOptions :: "'client \<Rightarrow> AddParameterCommandArgs \<Rightarrow> 'client InputBoxOptions" where
  "inputBoxOptions c a =
     \<lparr>title = ''Add Parameter(s)'',
      prompt = prompt_of a,
      ignoreFocusOut = True,
      validateInput = sendCheckSyntaxRequest (adaSyntaxCheckProvider c a)\<rparr>"

definition alsAddParameterCommandExecutor ::
  "'client window \<Rightarrow> 'client \<Rightarrow> 'client state \<Rightarrow> (string + bool) \<times> 'client state" where
  "alsAddParameterCommandExecutor w c s =
     (if requiresFullSpecification (args s) = None \<or> newParameter (args s) = None
      then (Inl missing_field, s)
      else
        (case showInputBox w (inputBoxOptions c (args s)) s of
           (Some input, s') \<Rightarrow> (Inr True, assign_newParameter input s')
         | (None, s') \<Rightarrow> (Inr False, s')))"

subsection \<open>The awaited input box\<close>

text \<open>
  The executor awaits the Thenable that \<^verbatim>\<open>window.showInputBox\<close> returns, and it has no
  \<^verbatim>\<open>try\<close>/\<^verbatim>\<open>catch\<close> around the \<^verbatim>\<open>await\<close>. A Thenable need not be fulfilled: when it
  rejects, the rejection leaves the async executor as the rejection of its own promise,
  after the box has been shown; while it is unsettled (the box ignores focus loss and
  waits for the user), the executor's promise is pending. \<open>showInputBox\<close> and
  \<open>alsAddParameterCommandExecutor\<close> above are the executor for a box that is fulfilled with
  its declared result; the definitions below are the executor for any Thenable, with the
  same guard, the same box and the same assignment.
\<close>

datatype 'e thenable = Fulfils "string option" | Rejects 'e | Unsettled

text \<open>
  A rejection reason is the diagnostic string the executor rejects with itself, or
  whatever the box rejected with.
\<close>

datatype 'e reason = Diagnostic string | Propagated 'e

datatype 'e promise = Resolved bool | Rejected "'e reason" | Pending


definition showInputBox_await ::
  "('client InputBoxOptions \<Rightarrow> 'e thenable) \<Rightarrow> 'client InputBoxOptions \<Rightarrow> 'client state
     \<Rightarrow> 'e thenable \<times> 'client state" where
  "showInputBox_await w opts s = (w opts, s\<lparr>trace := trace s @ [ShowInputBox opts]\<rparr>)"

definition alsAddParameterCommandExecutor_await ::
  "('client InputBoxOptions \<Rightarrow> 'e thenable) \<Rightarrow> 'client \<Rightarrow> 'client state
     \<Rightarrow> 'e promise \<times> 'client state" where
  "alsAddParameterCommandExecutor_await w c s =
     (if requiresFullSpecification (args s) = None \<or> newParameter (args s) = None
      then (Rejected (Diagnostic missing_field), s)
      else
        (case showInputBox_await w (inputBoxOptions c (args s)) s of
           (Fulfils (Some input), s') \<Rightarrow> (Resolved True, assign_newParameter input s')
         | (Fulfils None, s') \<Rightarrow> (Resolved False, s')
         | (Rejects e, s') \<Rightarrow> (Rejected (Propagated e), s')
         | (Unsettled, s') \<Rightarrow> (Pending, s')))"

text \<open>The settlement of the executor's promise, from the outcome of a run with a fulfilled box.\<close>

fun settle :: "string + bool \<Rightarrow> 'e promise" where
  "settle (Inl d) = Rejected (Diagnostic d)"
| "settle (Inr b) = Resolved b"

section \<open>Properties of the executor\<close>

lemmas exec_defs =
  alsAddParameterCommandExecutor_def showInputBox_def assign_newParameter_def init_def

lemmas variant_defs =
  inputBoxOptions_def adaSyntaxCheckProvider_def prompt_of_def rules_of_def diagnostic_of_def

text \<open>
  The three runs of the executor, by its guard and by the answer of the input box. Every
  property below is read off one of them.
\<close>

lemma exec_reject:
  assumes "requiresFullSpecification a = None \<or> newParameter a = None"
  shows "alsAddParameterCommandExecutor w c (init a) = (Inl missing_field, \<lparr>args = a, trace = []\<rparr>)"
  using assms by (auto simp: exec_defs)

lemma exec_confirm:
  assumes "requiresFullSpecification a = Some b" and "newParameter a = Some p"
    and "w (inputBoxOptions c a) = Some T"
  shows "alsAddParameterCommandExecutor w c (init a) =
           (Inr True,
            \<lparr>args = a\<lparr>newParameter := Some T\<rparr>,
             trace = [ShowInputBox (inputBoxOptions c a), AssignNewParameter T]\<rparr>)"
  using assms by (simp add: exec_defs)

lemma exec_cancel:
  assumes "requiresFullSpecification a = Some b" and "newParameter a = Some p"
    and "w (inputBoxOptions c a) = None"
  shows "alsAddParameterCommandExecutor w c (init a) =
           (Inr False, \<lparr>args = a, trace = [ShowInputBox (inputBoxOptions c a)]\<rparr>)"
  using assms by (simp add: exec_defs)

lemma exec_cases:
  obtains
    (reject) "requiresFullSpecification a = None \<or> newParameter a = None"
  | (confirm) b p T where "requiresFullSpecification a = Some b" "newParameter a = Some p"
      "w (inputBoxOptions c a) = Some T"
  | (cancel) b p where "requiresFullSpecification a = Some b" "newParameter a = Some p"
      "w (inputBoxOptions c a) = None"
  by (cases "requiresFullSpecification a"; cases "newParameter a"; cases "w (inputBoxOptions c a)")
     auto

text \<open>
  C1: when \<^verbatim>\<open>newParameter\<close> or \<^verbatim>\<open>requiresFullSpecification\<close> is absent from the argument
  record, the executor rejects with the one fixed missing-field diagnostic string, and no
  input box is shown to the user.
\<close>

theorem missing_field_rejects_without_prompt:
  assumes "newParameter a = None \<or> requiresFullSpecification a = None"
  shows \<open>fst (alsAddParameterCommandExecutor w c (init a)) =
           Inl ''Invalid als-refactor-add-parameters command: missing "requiresFullSpecification" field''
         \<and> shown (trace (snd (alsAddParameterCommandExecutor w c (init a)))) = []\<close>
proof -
  have "alsAddParameterCommandExecutor w c (init a) = (Inl missing_field, \<lparr>args = a, trace = []\<rparr>)"
    using assms by (intro exec_reject) auto
  then show ?thesis
    by (simp add: missing_field_def)
qed

theorem missing_field_rejects_without_prompt_witness:
  \<open>fst (alsAddParameterCommandExecutor (\<lambda>_. Some ''Y'') (0::nat)
          (init \<lparr>newParameter = None, requiresFullSpecification = Some False\<rparr>)) =
     Inl ''Invalid als-refactor-add-parameters command: missing "requiresFullSpecification" field''
   \<and> shown (trace (snd (alsAddParameterCommandExecutor (\<lambda>_. Some ''Y'') (0::nat)
          (init \<lparr>newParameter = None, requiresFullSpecification = Some False\<rparr>)))) = []\<close>
  using missing_field_rejects_without_prompt
    [of "\<lparr>newParameter = None, requiresFullSpecification = Some False\<rparr>" "\<lambda>_. Some ''Y''" "0::nat"]
  by simp

text \<open>
  C2: with both fields present, if the user confirms the text \<open>T\<close> in the input box, the
  executor resolves to true and the record's \<^verbatim>\<open>newParameter\<close> field is \<open>T\<close> on return.
\<close>

theorem confirm_resolves_true_and_stores_text:
  assumes "requiresFullSpecification a = Some b" and "newParameter a = Some p"
    and "w (inputBoxOptions c a) = Some T"
  shows "fst (alsAddParameterCommandExecutor w c (init a)) = Inr True
         \<and> newParameter (args (snd (alsAddParameterCommandExecutor w c (init a)))) = Some T"
  using assms by (simp add: exec_confirm)

theorem confirm_resolves_true_and_stores_text_witness:
  "fst (alsAddParameterCommandExecutor (\<lambda>_. Some ''A, B'') (0::nat)
          (init \<lparr>newParameter = Some ''old'', requiresFullSpecification = Some False\<rparr>)) = Inr True
   \<and> newParameter (args (snd (alsAddParameterCommandExecutor (\<lambda>_. Some ''A, B'') (0::nat)
          (init \<lparr>newParameter = Some ''old'', requiresFullSpecification = Some False\<rparr>)))) = Some ''A, B''"
  using confirm_resolves_true_and_stores_text
    [of "\<lparr>newParameter = Some ''old'', requiresFullSpecification = Some False\<rparr>" False "''old''"
        "\<lambda>_. Some ''A, B''" "0::nat" "''A, B''"]
  by simp

text \<open>
  C3: with both fields present, if the user cancels the input box (no text is confirmed),
  the executor resolves to false and the record's \<^verbatim>\<open>newParameter\<close> field keeps the value
  it had at invocation.
\<close>

theorem cancel_resolves_false_and_keeps_text:
  assumes "requiresFullSpecification a = Some b" and "newParameter a = Some p"
    and "w (inputBoxOptions c a) = None"
  shows "fst (alsAddParameterCommandExecutor w c (init a)) = Inr False
         \<and> newParameter (args (snd (alsAddParameterCommandExecutor w c (init a)))) = newParameter a"
  using assms by (simp add: exec_cancel)

theorem cancel_resolves_false_and_keeps_text_witness:
  "fst (alsAddParameterCommandExecutor (\<lambda>_. None) (0::nat)
          (init \<lparr>newParameter = Some ''old'', requiresFullSpecification = Some True\<rparr>)) = Inr False
   \<and> newParameter (args (snd (alsAddParameterCommandExecutor (\<lambda>_. None) (0::nat)
          (init \<lparr>newParameter = Some ''old'', requiresFullSpecification = Some True\<rparr>)))) = Some ''old''"
  using cancel_resolves_false_and_keeps_text
    [of "\<lparr>newParameter = Some ''old'', requiresFullSpecification = Some True\<rparr>" True "''old''"
        "\<lambda>_. None" "0::nat"]
  by simp

text \<open>
  C4: with both fields present, the prompt string, the grammar rules and the diagnostic
  message depend on the flag \<^verbatim>\<open>requiresFullSpecification\<close> alone, each between two fixed
  variants: for a true flag the full-specification prompt, the single rule
  \<open>Param_Spec_Rule\<close> and the full-specification diagnostic; for a false flag the
  name-or-full prompt, the three rules \<open>Defining_Id_Rule\<close>, \<open>Defining_Id_List_Rule\<close>,
  \<open>Param_Spec_Rule\<close> and the name-or-full diagnostic.
\<close>

theorem variant_selected_by_flag:
  assumes "requiresFullSpecification a = Some b" and "newParameter a = Some p"
  shows "map prompt (shown (trace (snd (alsAddParameterCommandExecutor w c (init a))))) =
           [if b then ''Insert a full parameter specification''
            else ''Insert one or more comma-separated parameter names or a full parameter specification'']
         \<and> map validateInput (shown (trace (snd (alsAddParameterCommandExecutor w c (init a))))) =
           [sendCheckSyntaxRequest
              \<lparr>client = c,
               rules = (if b then [Param_Spec_Rule]
                        else [Defining_Id_Rule, Defining_Id_List_Rule, Param_Spec_Rule]),
               diagnostic =
                 (if b then ''This is not a syntactically valid full parameter specification''
                  else ''This is not a syntactically valid parameter name or full parameter specification'')\<rparr>]"
proof (cases "w (inputBoxOptions c a)")
  case None
  with assms show ?thesis
    by (simp add: exec_cancel variant_defs)
next
  case (Some T)
  with assms show ?thesis
    by (simp add: exec_confirm variant_defs)
qed

theorem variant_selected_by_flag_witness:
  "map prompt (shown (trace (snd (alsAddParameterCommandExecutor (\<lambda>_. None) (0::nat)
       (init \<lparr>newParameter = Some ''old'', requiresFullSpecification = Some False\<rparr>))))) =
     [''Insert one or more comma-separated parameter names or a full parameter specification'']
   \<and> map validateInput (shown (trace (snd (alsAddParameterCommandExecutor (\<lambda>_. None) (0::nat)
       (init \<lparr>newParameter = Some ''old'', requiresFullSpecification = Some False\<rparr>))))) =
     [sendCheckSyntaxRequest
        \<lparr>client = 0,
         rules = [Defining_Id_Rule, Defining_Id_List_Rule, Param_Spec_Rule],
         diagnostic =
           ''This is not a syntactically valid parameter name or full parameter specification''\<rparr>]"
  using variant_selected_by_flag
    [of "\<lparr>newParameter = Some ''old'', requiresFullSpecification = Some False\<rparr>" False "''old''"
        "\<lambda>_. None" "0::nat"]
  by simp

text \<open>
  For a box that is fulfilled, the executor for any Thenable is the executor above; for a
  box that rejects or stays unsettled it shows the box and then rejects with the box's
  reason, or stays pending, without touching the record.
\<close>

lemmas await_defs =
  alsAddParameterCommandExecutor_await_def showInputBox_await_def assign_newParameter_def init_def

lemma await_fulfilled:
  "alsAddParameterCommandExecutor_await (\<lambda>opts. Fulfils (w opts)) c s =
     (settle (fst (alsAddParameterCommandExecutor w c s)),
      snd (alsAddParameterCommandExecutor w c s))"
  by (simp add: alsAddParameterCommandExecutor_await_def showInputBox_await_def
        alsAddParameterCommandExecutor_def showInputBox_def split: option.splits)

lemma await_rejected:
  assumes "requiresFullSpecification a = Some b" and "newParameter a = Some p"
    and "w (inputBoxOptions c a) = Rejects e"
  shows "alsAddParameterCommandExecutor_await w c (init a) =
           (Rejected (Propagated e), \<lparr>args = a, trace = [ShowInputBox (inputBoxOptions c a)]\<rparr>)"
  using assms by (simp add: await_defs)

lemma await_unsettled:
  assumes "requiresFullSpecification a = Some b" and "newParameter a = Some p"
    and "w (inputBoxOptions c a) = Unsettled"
  shows "alsAddParameterCommandExecutor_await w c (init a) =
           (Pending, \<lparr>args = a, trace = [ShowInputBox (inputBoxOptions c a)]\<rparr>)"
  using assms by (simp add: await_defs)




text \<open>
  C6: in every invocation the executor assigns to the argument record at most once, the
  assignment is to \<^verbatim>\<open>newParameter\<close> only and happens only when the user has confirmed a
  text; \<^verbatim>\<open>requiresFullSpecification\<close> is the same after every outcome.
\<close>

theorem record_assigned_at_most_once:
  "length (assigned (trace (snd (alsAddParameterCommandExecutor w c (init a))))) \<le> 1
   \<and> (assigned (trace (snd (alsAddParameterCommandExecutor w c (init a)))) \<noteq> [] \<longrightarrow>
        fst (alsAddParameterCommandExecutor w c (init a)) = Inr True
        \<and> w (inputBoxOptions c a) \<noteq> None)
   \<and> args (snd (alsAddParameterCommandExecutor w c (init a))) =
        fold (\<lambda>v r. r\<lparr>newParameter := Some v\<rparr>)
          (assigned (trace (snd (alsAddParameterCommandExecutor w c (init a))))) a
   \<and> requiresFullSpecification (args (snd (alsAddParameterCommandExecutor w c (init a)))) =
        requiresFullSpecification a"
proof (cases rule: exec_cases [where a = a and w = w and c = c])
  case reject
  then show ?thesis
    by (auto simp: exec_reject)
next
  case (confirm b p T)
  then show ?thesis
    by (simp add: exec_confirm)
next
  case (cancel b p)
  then show ?thesis
    by (simp add: exec_cancel)
qed

theorem record_assigned_at_most_once_witness:
  "assigned (trace (snd (alsAddParameterCommandExecutor (\<lambda>_. Some ''A, B'') (0::nat)
       (init \<lparr>newParameter = Some ''old'', requiresFullSpecification = Some False\<rparr>)))) = [''A, B'']
   \<and> fst (alsAddParameterCommandExecutor (\<lambda>_. Some ''A, B'') (0::nat)
       (init \<lparr>newParameter = Some ''old'', requiresFullSpecification = Some False\<rparr>)) = Inr True
   \<and> args (snd (alsAddParameterCommandExecutor (\<lambda>_. Some ''A, B'') (0::nat)
       (init \<lparr>newParameter = Some ''old'', requiresFullSpecification = Some False\<rparr>))) =
       \<lparr>newParameter = Some ''A, B'', requiresFullSpecification = Some False\<rparr>"
proof -
  let ?a = "\<lparr>newParameter = Some ''old'', requiresFullSpecification = Some False\<rparr>"
  let ?r = "alsAddParameterCommandExecutor (\<lambda>_. Some ''A, B'') (0::nat) (init ?a)"
  have t: "assigned (trace (snd ?r)) = [''A, B'']"
    by (simp add: exec_defs)
  from record_assigned_at_most_once [of "\<lambda>_. Some ''A, B''" "0::nat" ?a] t
  show ?thesis
    by simp
qed

text \<open>
  C7: for the record \<^verbatim>\<open>{newParameter: "", requiresFullSpecification: true}\<close>, if the user
  confirms the text \<^verbatim>\<open>X : Integer\<close>, the executor resolves to true and the record is
  \<^verbatim>\<open>{newParameter: "X : Integer", requiresFullSpecification: true}\<close> afterwards.
\<close>

theorem scenario_full_specification:
  assumes "w (inputBoxOptions c \<lparr>newParameter = Some '''', requiresFullSpecification = Some True\<rparr>) =
             Some ''X : Integer''"
  shows "fst (alsAddParameterCommandExecutor w c
                (init \<lparr>newParameter = Some '''', requiresFullSpecification = Some True\<rparr>)) = Inr True
         \<and> args (snd (alsAddParameterCommandExecutor w c
                (init \<lparr>newParameter = Some '''', requiresFullSpecification = Some True\<rparr>))) =
             \<lparr>newParameter = Some ''X : Integer'', requiresFullSpecification = Some True\<rparr>"
  using assms
  by (simp add: exec_confirm [where b = True and p = "''''"])

theorem scenario_full_specification_witness:
  "fst (alsAddParameterCommandExecutor (\<lambda>_. Some ''X : Integer'') (0::nat)
          (init \<lparr>newParameter = Some '''', requiresFullSpecification = Some True\<rparr>)) = Inr True
   \<and> args (snd (alsAddParameterCommandExecutor (\<lambda>_. Some ''X : Integer'') (0::nat)
          (init \<lparr>newParameter = Some '''', requiresFullSpecification = Some True\<rparr>))) =
       \<lparr>newParameter = Some ''X : Integer'', requiresFullSpecification = Some True\<rparr>"
  using scenario_full_specification [of "\<lambda>_. Some ''X : Integer''" "0::nat"]
  by simp

text \<open>
  C8: with both fields present, exactly one input box is shown; its title is
  \<^verbatim>\<open>Add Parameter(s)\<close>, \<^verbatim>\<open>ignoreFocusOut\<close> is set, and its \<^verbatim>\<open>validateInput\<close> callback is the
  \<^verbatim>\<open>sendCheckSyntaxRequest\<close> of the syntax-check provider constructed from the client, the
  selected grammar rules and the selected diagnostic.
\<close>

theorem input_box_as_configured:
  assumes "requiresFullSpecification a = Some b" and "newParameter a = Some p"
  shows "map title (shown (trace (snd (alsAddParameterCommandExecutor w c (init a))))) =
           [''Add Parameter(s)'']
         \<and> map ignoreFocusOut (shown (trace (snd (alsAddParameterCommandExecutor w c (init a))))) =
           [True]
         \<and> map validateInput (shown (trace (snd (alsAddParameterCommandExecutor w c (init a))))) =
           [sendCheckSyntaxRequest \<lparr>client = c, rules = rules_of a, diagnostic = diagnostic_of a\<rparr>]"
proof (cases "w (inputBoxOptions c a)")
  case None
  with assms show ?thesis
    by (simp add: exec_cancel inputBoxOptions_def adaSyntaxCheckProvider_def)
next
  case (Some T)
  with assms show ?thesis
    by (simp add: exec_confirm inputBoxOptions_def adaSyntaxCheckProvider_def)
qed

theorem input_box_as_configured_witness:
  "map title (shown (trace (snd (alsAddParameterCommandExecutor (\<lambda>_. Some ''Z'') (7::nat)
       (init \<lparr>newParameter = Some '''', requiresFullSpecification = Some True\<rparr>))))) =
     [''Add Parameter(s)'']
   \<and> map ignoreFocusOut (shown (trace (snd (alsAddParameterCommandExecutor (\<lambda>_. Some ''Z'') (7::nat)
       (init \<lparr>newParameter = Some '''', requiresFullSpecification = Some True\<rparr>))))) = [True]
   \<and> map validateInput (shown (trace (snd (alsAddParameterCommandExecutor (\<lambda>_. Some ''Z'') (7::nat)
       (init \<lparr>newParameter = Some '''', requiresFullSpecification = Some True\<rparr>))))) =
     [sendCheckSyntaxRequest
        \<lparr>client = 7, rules = [Param_Spec_Rule],
         diagnostic = ''This is not a syntactically valid full parameter specification''\<rparr>]"
  using input_box_as_configured
    [of "\<lparr>newParameter = Some '''', requiresFullSpecification = Some True\<rparr>" True "''''"
        "\<lambda>_. Some ''Z''" "7::nat"]
  by (simp add: rules_of_def diagnostic_of_def)

text \<open>
  C9: when the executor rejects, the argument record is exactly as it was at invocation:
  no assignment to it has been made before the rejection.
\<close>

theorem rejection_leaves_record_unchanged:
  assumes "fst (alsAddParameterCommandExecutor w c (init a)) = Inl d"
  shows "(requiresFullSpecification a = None \<or> newParameter a = None)
         \<and> args (snd (alsAddParameterCommandExecutor w c (init a))) = a
         \<and> assigned (trace (snd (alsAddParameterCommandExecutor w c (init a)))) = []"
proof (cases rule: exec_cases [where a = a and w = w and c = c])
  case reject
  then show ?thesis
    by (auto simp: exec_reject)
next
  case (confirm b p T)
  with assms show ?thesis
    by (simp add: exec_confirm)
next
  case (cancel b p)
  with assms show ?thesis
    by (simp add: exec_cancel)
qed

theorem rejection_leaves_record_unchanged_witness:
  "args (snd (alsAddParameterCommandExecutor (\<lambda>_. Some ''Y'') (0::nat)
       (init \<lparr>newParameter = None, requiresFullSpecification = Some False\<rparr>))) =
     \<lparr>newParameter = None, requiresFullSpecification = Some False\<rparr>
   \<and> assigned (trace (snd (alsAddParameterCommandExecutor (\<lambda>_. Some ''Y'') (0::nat)
       (init \<lparr>newParameter = None, requiresFullSpecification = Some False\<rparr>)))) = []"
proof -
  let ?a = "\<lparr>newParameter = None, requiresFullSpecification = Some False\<rparr>"
  have "fst (alsAddParameterCommandExecutor (\<lambda>_. Some ''Y'') (0::nat) (init ?a)) = Inl missing_field"
    by (simp add: exec_defs)
  from rejection_leaves_record_unchanged [OF this] show ?thesis
    by simp
qed

text \<open>
  C10: confirming the empty text is not cancelling. With both fields present, if the user
  confirms \<^verbatim>\<open>""\<close> the executor resolves to true and \<^verbatim>\<open>newParameter\<close> becomes \<^verbatim>\<open>""\<close>,
  whatever it held before; the executor resolves to false only for the answer
  \<^verbatim>\<open>undefined\<close>.
\<close>

theorem empty_text_is_a_confirmation:
  assumes "requiresFullSpecification a = Some b" and "newParameter a = Some p"
  shows "(w (inputBoxOptions c a) = Some '''' \<longrightarrow>
            fst (alsAddParameterCommandExecutor w c (init a)) = Inr True
            \<and> newParameter (args (snd (alsAddParameterCommandExecutor w c (init a)))) = Some '''')
         \<and> (fst (alsAddParameterCommandExecutor w c (init a)) = Inr False \<longleftrightarrow>
              w (inputBoxOptions c a) = None)"
proof (cases "w (inputBoxOptions c a)")
  case None
  with assms show ?thesis
    by (simp add: exec_cancel)
next
  case (Some T)
  with assms show ?thesis
    by (simp add: exec_confirm)
qed

theorem empty_text_is_a_confirmation_witness:
  "fst (alsAddParameterCommandExecutor (\<lambda>_. Some '''') (0::nat)
          (init \<lparr>newParameter = Some ''old'', requiresFullSpecification = Some False\<rparr>)) = Inr True
   \<and> newParameter (args (snd (alsAddParameterCommandExecutor (\<lambda>_. Some '''') (0::nat)
          (init \<lparr>newParameter = Some ''old'', requiresFullSpecification = Some False\<rparr>)))) = Some ''''"
  using empty_text_is_a_confirmation
    [of "\<lparr>newParameter = Some ''old'', requiresFullSpecification = Some False\<rparr>" False "''old''"
        "\<lambda>_. Some ''''" "0::nat"]
  by simp

end
